theory Spec2Isabelle
  imports Complex_Main "HOL-Library.Sublist"
begin

section \<open>CarryVault: data model\<close>

text \<open>
  The application object of \<^verbatim>\<open>app.js\<close> keeps four collections and a settings
  object in \<^verbatim>\<open>this.data\<close>. Each entity is the object literal its create
  function builds; a field that several entities share carries a suffix
  (\<^verbatim>\<open>_f\<close>, \<^verbatim>\<open>_m\<close>, \<^verbatim>\<open>_t\<close>, \<^verbatim>\<open>_p\<close>). Form fields are strings,
  \<^verbatim>\<open>Date.now()\<close> is an integer number of milliseconds, \<^verbatim>\<open>null\<close> is
  \<open>None\<close>.
\<close>

record firearm =
  id_f :: int
  makeModel :: string
  serial :: string
  caliber :: string
  type_f :: string
  purchaseDate :: string
  price :: string
  notes_f :: string
  createdAt_f :: string

record maintenance =
  id_m :: int
  type_m :: string
  date_m :: string
  firearmId_m :: "int option"
  firearmMakeModel_m :: string
  notes_m :: string
  createdAt_m :: string

record training =
  id_t :: int
  type_t :: string
  date_t :: string
  duration :: int
  firearmId_t :: "int option"
  firearmMakeModel_t :: string
  notes_t :: string
  score :: "int option"
  createdAt_t :: string

record permit =
  id_p :: int
  type_p :: string
  state_p :: string
  issueDate :: string
  expirationDate :: string
  permitNumber :: string
  notes_p :: string
  createdAt_p :: string

record notifications =
  permitAlerts :: bool
  maintenanceAlerts :: bool
  trainingAlerts :: bool

record settings =
  userState :: string
  notifications :: notifications

record appdata =
  firearms :: "firearm list"
  maintenance :: "maintenance list"
  training :: "training list"
  permits :: "permit list"
  settings :: settings

section \<open>The platform\<close>

text \<open>
  Two built-ins of the JavaScript engine are inputs of the model: the time value of
  \<^verbatim>\<open>new Date(s)\<close> for a string \<open>s\<close> (\<open>None\<close> for an Invalid Date) and
  \<^verbatim>\<open>Date.prototype.toISOString\<close>. The clock reading (\<^verbatim>\<open>new Date()\<close>,
  \<^verbatim>\<open>Date.now()\<close>) is an argument \<open>now\<close> of every function that reads it.
\<close>

record platform =
  dateParse :: "string \<Rightarrow> int option"
  toISOString :: "int \<Rightarrow> string"

text \<open>
  A JavaScript number is \<open>NaN\<close> or a real. Time values are integers of at most
  \<open>8.64 * 10^15\<close> in magnitude; for a clock of this era their difference is exact
  in a double and its quotient by the milliseconds of a day is below \<open>2^27\<close>, with a
  rounding error of at most \<open>2^-27\<close>. A quotient that is no integer is at least
  \<open>1 / 86400000\<close> away from every integer, which is more, so the comparisons with
  30 and 90 and the ceiling come out as for the exact quotient. A comparison with
  \<open>NaN\<close> is false.
\<close>

datatype jsnum = NaN | Num real

fun jsLe :: "jsnum \<Rightarrow> jsnum \<Rightarrow> bool" where
  "jsLe (Num a) (Num b) = (a \<le> b)"
| "jsLe _ _ = False"

fun jsSub :: "jsnum \<Rightarrow> jsnum \<Rightarrow> jsnum" where
  "jsSub (Num a) (Num b) = Num (a - b)"
| "jsSub _ _ = NaN"

definition msPerDay :: real where
  "msPerDay = 1000 * 60 * 60 * 24"

fun perDay :: "jsnum \<Rightarrow> jsnum" where
  "perDay (Num a) = Num (a / msPerDay)"
| "perDay NaN = NaN"

fun mathCeil :: "jsnum \<Rightarrow> jsnum" where
  "mathCeil (Num a) = Num (of_int \<lceil>a\<rceil>)"
| "mathCeil NaN = NaN"

definition newDate :: "platform \<Rightarrow> string \<Rightarrow> jsnum" where
  "newDate P s = (case dateParse P s of None \<Rightarrow> NaN | Some t \<Rightarrow> Num (of_int t))"

text \<open>Decimal text of a number in a template literal; only integers reach it.\<close>

definition digitChar :: "nat \<Rightarrow> char" where
  "digitChar d = ''0123456789'' ! d"

function natToString :: "nat \<Rightarrow> string" where
  "natToString n =
     (if n < 10 then [digitChar n] else natToString (n div 10) @ [digitChar (n mod 10)])"
  by pat_completeness auto
termination
  by (relation "measure (\<lambda>n. n)") auto

declare natToString.simps [simp del]

definition intToString :: "int \<Rightarrow> string" where
  "intToString i = (if i < 0 then CHR ''-'' # natToString (nat (- i)) else natToString (nat i))"

fun numToString :: "jsnum \<Rightarrow> string" where
  "numToString NaN = ''NaN''"
| "numToString (Num a) = intToString \<lfloor>a\<rfloor>"

section \<open>Alert engine\<close>

record alert =
  title :: string
  description :: string
  priority :: string

text \<open>\<^verbatim>\<open>(expiration - now) / (1000 * 60 * 60 * 24)\<close>\<close>

definition daysUntil :: "platform \<Rightarrow> int \<Rightarrow> permit \<Rightarrow> jsnum" where
  "daysUntil P now p = perDay (jsSub (newDate P (expirationDate p)) (Num (of_int now)))"

definition isPermitExpiringSoon :: "platform \<Rightarrow> int \<Rightarrow> permit \<Rightarrow> bool" where
  "isPermitExpiringSoon P now p =
     (if expirationDate p = [] then False
      else jsLe (daysUntil P now p) (Num 90))"

text \<open>The \<^verbatim>\<open>forEach\<close> of \<^verbatim>\<open>calculateAlerts\<close>: the callback bumps the counter.\<close>

definition calculateAlerts :: "platform \<Rightarrow> int \<Rightarrow> appdata \<Rightarrow> nat" where
  "calculateAlerts P now d =
     fold (\<lambda>p count. if isPermitExpiringSoon P now p then count + 1 else count) (permits d) 0"

text \<open>The callback of \<^verbatim>\<open>generateAlerts\<close>: \<^verbatim>\<open>alerts.push\<close> appends.\<close>

definition pushAlert :: "platform \<Rightarrow> int \<Rightarrow> permit \<Rightarrow> alert list \<Rightarrow> alert list" where
  "pushAlert P now p alerts =
     (if expirationDate p \<noteq> [] then
        (if jsLe (daysUntil P now p) (Num 30) then
           alerts @ [\<lparr>title = type_p p @ '' Expiring Soon'',
                      description = ''Your '' @ state_p p @ '' '' @ type_p p @ '' expires in ''
                        @ numToString (mathCeil (daysUntil P now p)) @ '' days'',
                      priority = ''high''\<rparr>]
         else if jsLe (daysUntil P now p) (Num 90) then
           alerts @ [\<lparr>title = type_p p @ '' Renewal Reminder'',
                      description = ''Your '' @ state_p p @ '' '' @ type_p p @ '' expires in ''
                        @ numToString (mathCeil (daysUntil P now p)) @ '' days'',
                      priority = ''medium''\<rparr>]
         else alerts)
      else alerts)"

definition generateAlerts :: "platform \<Rightarrow> int \<Rightarrow> appdata \<Rightarrow> alert list" where
  "generateAlerts P now d = fold (pushAlert P now) (permits d) []"


section \<open>Record store\<close>

text \<open>
  The IndexedDB database \<^verbatim>\<open>CarryVaultDB\<close>: four object stores keyed by the
  \<^verbatim>\<open>id\<close> property of their records and a settings store keyed by
  \<^verbatim>\<open>key\<close>. An object store keeps its records in ascending key order, which is the
  order of \<^verbatim>\<open>getAll\<close>, and \<^verbatim>\<open>add\<close> refuses a record whose key is already
  present (its request fails with a ConstraintError).
\<close>

record settingsRow =
  key_s :: string
  value_s :: settings

record database =
  firearmsStore :: "firearm list"
  maintenanceStore :: "maintenance list"
  trainingStore :: "training list"
  permitsStore :: "permit list"
  settingsStore :: "settingsRow list"

text \<open>
  What a rejected promise carries: \<open>TypeError\<close> when \<^verbatim>\<open>this.db\<close> is
  \<^verbatim>\<open>null\<close> (the call \<^verbatim>\<open>this.db.transaction\<close> throws inside the promise
  executor) or when there is no \<^verbatim>\<open>indexedDB\<close> object to call
  \<^verbatim>\<open>open\<close> on, \<open>SecurityError\<close> when \<^verbatim>\<open>indexedDB.open\<close> refuses the
  origin of the page, \<open>ConstraintError\<close> from \<^verbatim>\<open>add\<close> on a key that exists,
  \<open>RequestError\<close> for any other \<^verbatim>\<open>request.onerror\<close>. Whether a request meets
  such an other failure is an input \<open>ok\<close> of the operation.
\<close>

datatype error = TypeError | SecurityError | ConstraintError | RequestError

definition storeAdd :: "('a \<Rightarrow> int) \<Rightarrow> bool \<Rightarrow> 'a \<Rightarrow> 'a list \<Rightarrow> error + 'a list" where
  "storeAdd key ok item rows =
     (if \<not> ok then Inl RequestError
      else if key item \<in> set (map key rows) then Inl ConstraintError
      else Inr (insort_key key item rows))"

text \<open>
  \<^verbatim>\<open>addItem(storeName, item)\<close> and \<^verbatim>\<open>getAll(storeName)\<close>; the store name is
  given by the selector and the update function of the store's field and by the key
  of its records.
\<close>

definition addItem ::
  "(database \<Rightarrow> 'a list) \<Rightarrow> (('a list \<Rightarrow> 'a list) \<Rightarrow> database \<Rightarrow> database) \<Rightarrow> ('a \<Rightarrow> int)
     \<Rightarrow> bool \<Rightarrow> 'a \<Rightarrow> database option \<Rightarrow> error + database" where
  "addItem sel upd key ok item dbo =
     (case dbo of
        None \<Rightarrow> Inl TypeError
      | Some d \<Rightarrow>
          (case storeAdd key ok item (sel d) of
             Inl e \<Rightarrow> Inl e
           | Inr rows \<Rightarrow> Inr (upd (\<lambda>_. rows) d)))"

definition getAll :: "(database \<Rightarrow> 'a list) \<Rightarrow> bool \<Rightarrow> database option \<Rightarrow> error + 'a list" where
  "getAll sel ok dbo =
     (case dbo of
        None \<Rightarrow> Inl TypeError
      | Some d \<Rightarrow> if ok then Inr (sel d) else Inl RequestError)"

section \<open>Application facade\<close>

text \<open>
  The page holds what the update functions write: the four dashboard counters, the
  four list views and the alert list. A list view is the list of the items whose cards
  the template renders (the empty list is the empty-state block); \<open>None\<close> is the
  content of the static page, never written by the script. One clock reading serves an
  operation from its first line to its last.
\<close>

record page =
  gunCount :: "nat option"
  maintenanceCount :: "nat option"
  trainingCount :: "nat option"
  alertCount :: "nat option"
  firearmList :: "firearm list option"
  maintenanceList :: "maintenance list option"
  trainingList :: "training list option"
  permitList :: "(permit \<times> bool) list option"
  alertList :: "alert list option"

record app =
  db :: "database option"
  currentTab :: string
  data :: appdata
  dom :: page

definition defaultSettings :: settings where
  "defaultSettings =
     \<lparr>userState = [],
      notifications = \<lparr>permitAlerts = True, maintenanceAlerts = True, trainingAlerts = True\<rparr>\<rparr>"

definition emptyData :: appdata where
  "emptyData =
     \<lparr>firearms = [], maintenance = [], training = [], permits = [], settings = defaultSettings\<rparr>"

definition staticPage :: page where
  "staticPage =
     \<lparr>gunCount = None, maintenanceCount = None, trainingCount = None, alertCount = None,
      firearmList = None, maintenanceList = None, trainingList = None, permitList = None,
      alertList = None\<rparr>"

text \<open>The constructor, before it calls \<^verbatim>\<open>init\<close>.\<close>

definition newApp :: app where
  "newApp = \<lparr>db = None, currentTab = ''dashboard'', data = emptyData, dom = staticPage\<rparr>"

text \<open>
  What \<^verbatim>\<open>indexedDB.open\<close> does: it throws at the call (no
  \<^verbatim>\<open>indexedDB\<close> object, or an origin that may not use it), its request reports
  an error (\<^verbatim>\<open>request.onerror\<close>), it finds no database yet (the upgrade handler
  creates the five stores, empty), or it finds the database of an earlier session.
\<close>

datatype storage = Throws error | Unavailable | Fresh | Existing database

definition emptyDatabase :: database where
  "emptyDatabase =
     \<lparr>firearmsStore = [], maintenanceStore = [], trainingStore = [], permitsStore = [],
      settingsStore = []\<rparr>"

text \<open>
  \<^verbatim>\<open>initDB\<close>: the promise executor has no \<^verbatim>\<open>try\<close>, so a call of
  \<^verbatim>\<open>open\<close> that throws rejects the promise; the error handler of the request
  logs and resolves with \<^verbatim>\<open>this.db\<close> still \<^verbatim>\<open>null\<close>; the success handler
  stores the connection.
\<close>

definition initDB :: "storage \<Rightarrow> app \<Rightarrow> error + app" where
  "initDB st s =
     (case st of
        Throws e \<Rightarrow> Inl e
      | Unavailable \<Rightarrow> Inr s
      | Fresh \<Rightarrow> Inr (s\<lparr>db := Some emptyDatabase\<rparr>)
      | Existing d \<Rightarrow> Inr (s\<lparr>db := Some d\<rparr>))"

text \<open>
  \<^verbatim>\<open>loadData\<close>: the five reads in order inside one \<^verbatim>\<open>try\<close>; the
  \<^verbatim>\<open>catch\<close> logs the error and the function returns normally with what was
  assigned before the failing read. \<open>readOk name\<close> tells whether the read of that
  store succeeds.
\<close>

definition loadData :: "(string \<Rightarrow> bool) \<Rightarrow> app \<Rightarrow> app" where
  "loadData readOk s =
     (if db s = None then s
      else
        (case getAll firearmsStore (readOk ''firearms'') (db s) of
           Inl e \<Rightarrow> s
         | Inr fs \<Rightarrow>
        let s1 = s\<lparr>data := (data s)\<lparr>firearms := fs\<rparr>\<rparr> in
        (case getAll maintenanceStore (readOk ''maintenance'') (db s1) of
           Inl e \<Rightarrow> s1
         | Inr ms \<Rightarrow>
        let s2 = s1\<lparr>data := (data s1)\<lparr>maintenance := ms\<rparr>\<rparr> in
        (case getAll trainingStore (readOk ''training'') (db s2) of
           Inl e \<Rightarrow> s2
         | Inr ts \<Rightarrow>
        let s3 = s2\<lparr>data := (data s2)\<lparr>training := ts\<rparr>\<rparr> in
        (case getAll permitsStore (readOk ''permits'') (db s3) of
           Inl e \<Rightarrow> s3
         | Inr ps \<Rightarrow>
        let s4 = s3\<lparr>data := (data s3)\<lparr>permits := ps\<rparr>\<rparr> in
        (case getAll settingsStore (readOk ''settings'') (db s4) of
           Inl e \<Rightarrow> s4
         | Inr rows \<Rightarrow>
            (case rows of
               [] \<Rightarrow> s4
             | r # _ \<Rightarrow> s4\<lparr>data := (data s4)\<lparr>settings := value_s r\<rparr>\<rparr>)))))))"

definition updateDashboard :: "platform \<Rightarrow> int \<Rightarrow> app \<Rightarrow> app" where
  "updateDashboard P now s =
     s\<lparr>dom := (dom s)
        \<lparr>gunCount := Some (length (firearms (data s))),
         maintenanceCount := Some (length (maintenance (data s))),
         trainingCount := Some (length (training (data s))),
         alertCount := Some (calculateAlerts P now (data s))\<rparr>\<rparr>"

definition updateInventory :: "app \<Rightarrow> app" where
  "updateInventory s = s\<lparr>dom := (dom s)\<lparr>firearmList := Some (firearms (data s))\<rparr>\<rparr>"

definition updateMaintenance :: "app \<Rightarrow> app" where
  "updateMaintenance s = s\<lparr>dom := (dom s)\<lparr>maintenanceList := Some (maintenance (data s))\<rparr>\<rparr>"

definition updateTraining :: "app \<Rightarrow> app" where
  "updateTraining s = s\<lparr>dom := (dom s)\<lparr>trainingList := Some (training (data s))\<rparr>\<rparr>"

text \<open>Each permit card carries the badge \<^verbatim>\<open>isPermitExpiringSoon\<close> chooses.\<close>

definition updatePermits :: "platform \<Rightarrow> int \<Rightarrow> app \<Rightarrow> app" where
  "updatePermits P now s =
     s\<lparr>dom := (dom s)
        \<lparr>permitList := Some (map (\<lambda>p. (p, isPermitExpiringSoon P now p)) (permits (data s)))\<rparr>\<rparr>"

definition updateAlerts :: "platform \<Rightarrow> int \<Rightarrow> app \<Rightarrow> app" where
  "updateAlerts P now s = s\<lparr>dom := (dom s)\<lparr>alertList := Some (generateAlerts P now (data s))\<rparr>\<rparr>"

text \<open>
  \<^verbatim>\<open>updateCompliance\<close> calls \<^verbatim>\<open>updatePermits\<close>, \<^verbatim>\<open>updateAlerts\<close> and
  \<^verbatim>\<open>updateComplianceInfo\<close>. The last one writes the compliance note only, an
  element outside this page (its body declares \<^verbatim>\<open>const info\<close> twice in one
  scope, which a JavaScript engine refuses when it reads the file; the functions are
  followed here as they are written).
\<close>

definition updateCompliance :: "platform \<Rightarrow> int \<Rightarrow> app \<Rightarrow> app" where
  "updateCompliance P now s = updateAlerts P now (updatePermits P now s)"

definition updateSection :: "platform \<Rightarrow> int \<Rightarrow> string \<Rightarrow> app \<Rightarrow> app" where
  "updateSection P now sectionName s =
     (if sectionName = ''dashboard'' then updateDashboard P now s
      else if sectionName = ''inventory'' then updateInventory s
      else if sectionName = ''maintenance'' then updateMaintenance s
      else if sectionName = ''training'' then updateTraining s
      else if sectionName = ''compliance'' then updateCompliance P now s
      else s)"

definition showSection :: "platform \<Rightarrow> int \<Rightarrow> string \<Rightarrow> app \<Rightarrow> app" where
  "showSection P now sectionName s = updateSection P now sectionName (s\<lparr>currentTab := sectionName\<rparr>)"

text \<open>
  How an operation ends: its promise is fulfilled, it is fulfilled after an
  \<^verbatim>\<open>alert\<close> dialog, or it is rejected with the error of the store.
\<close>

datatype outcome = Fulfilled | Alerted string | Rejected error

text \<open>
  \<^verbatim>\<open>init\<close>, called by the constructor on the new object. When
  \<^verbatim>\<open>await this.initDB()\<close> throws, \<^verbatim>\<open>init\<close> is rejected there and the
  object stays as the constructor left it: neither \<^verbatim>\<open>loadData\<close> nor
  \<^verbatim>\<open>updateDashboard\<close> runs. The listeners, the service worker and the offline
  indicator it sets up otherwise are outside the model.
\<close>

definition init :: "platform \<Rightarrow> storage \<Rightarrow> (string \<Rightarrow> bool) \<Rightarrow> int \<Rightarrow> outcome \<times> app" where
  "init P st readOk now =
     (case initDB st newApp of
        Inl e \<Rightarrow> (Rejected e, newApp)
      | Inr s \<Rightarrow> (Fulfilled, updateDashboard P now (loadData readOk s)))"

subsection \<open>Create operations\<close>

text \<open>The input elements of the firearm form, by their element ids.\<close>

record firearmForm =
  firearmMakeModel :: string
  firearmSerial :: string
  firearmCaliber :: string
  firearmType :: string
  firearmPurchaseDate :: string
  firearmPrice :: string
  firearmNotes :: string

text \<open>\<^verbatim>\<open>toISOString().split('T')[0]\<close>: the text before the first \<open>T\<close>.\<close>

definition isoDay :: "platform \<Rightarrow> int \<Rightarrow> string" where
  "isoDay P now = takeWhile (\<lambda>c. c \<noteq> CHR ''T'') (toISOString P now)"

text \<open>The object literals of the four create functions.\<close>

definition firearmOf :: "platform \<Rightarrow> int \<Rightarrow> firearmForm \<Rightarrow> firearm" where
  "firearmOf P now form =
     \<lparr>id_f = now,
      makeModel = firearmMakeModel form,
      serial = firearmSerial form,
      caliber = firearmCaliber form,
      type_f = firearmType form,
      purchaseDate = firearmPurchaseDate form,
      price = firearmPrice form,
      notes_f = firearmNotes form,
      createdAt_f = toISOString P now\<rparr>"

definition maintenanceOf :: "platform \<Rightarrow> int \<Rightarrow> maintenance" where
  "maintenanceOf P now =
     \<lparr>id_m = now,
      type_m = ''Cleaning'',
      date_m = isoDay P now,
      firearmId_m = None,
      firearmMakeModel_m = ''General'',
      notes_m = [],
      createdAt_m = toISOString P now\<rparr>"

definition trainingOf :: "platform \<Rightarrow> int \<Rightarrow> training" where
  "trainingOf P now =
     \<lparr>id_t = now,
      type_t = ''Range Session'',
      date_t = isoDay P now,
      duration = 1,
      firearmId_t = None,
      firearmMakeModel_t = ''General'',
      notes_t = [],
      score = None,
      createdAt_t = toISOString P now\<rparr>"

definition permitOf :: "platform \<Rightarrow> int \<Rightarrow> permit" where
  "permitOf P now =
     \<lparr>id_p = now,
      type_p = ''Concealed Carry'',
      state_p = [],
      issueDate = [],
      expirationDate = [],
      permitNumber = [],
      notes_p = [],
      createdAt_p = toISOString P now\<rparr>"

definition saveFirearm :: "platform \<Rightarrow> bool \<Rightarrow> int \<Rightarrow> firearmForm \<Rightarrow> app \<Rightarrow> outcome \<times> app" where
  "saveFirearm P ok now form s =
     (let firearm = firearmOf P now form in
      if makeModel firearm = [] then (Alerted ''Make/Model is required'', s)
      else
        (case addItem firearmsStore firearmsStore_update id_f ok firearm (db s) of
           Inl e \<Rightarrow> (Rejected e, s)
         | Inr d \<Rightarrow>
             (Fulfilled,
              updateDashboard P now (updateInventory
                (s\<lparr>db := Some d, data := (data s)\<lparr>firearms := firearms (data s) @ [firearm]\<rparr>\<rparr>)))))"

definition addMaintenance :: "platform \<Rightarrow> bool \<Rightarrow> int \<Rightarrow> app \<Rightarrow> outcome \<times> app" where
  "addMaintenance P ok now s =
     (let maintenance = maintenanceOf P now in
      case addItem maintenanceStore maintenanceStore_update id_m ok maintenance (db s) of
        Inl e \<Rightarrow> (Rejected e, s)
      | Inr d \<Rightarrow>
          (Fulfilled,
           updateDashboard P now (updateMaintenance
             (s\<lparr>db := Some d,
                data := (data s)\<lparr>maintenance := appdata.maintenance (data s) @ [maintenance]\<rparr>\<rparr>))))"

definition addTraining :: "platform \<Rightarrow> bool \<Rightarrow> int \<Rightarrow> app \<Rightarrow> outcome \<times> app" where
  "addTraining P ok now s =
     (let training = trainingOf P now in
      case addItem trainingStore trainingStore_update id_t ok training (db s) of
        Inl e \<Rightarrow> (Rejected e, s)
      | Inr d \<Rightarrow>
          (Fulfilled,
           updateDashboard P now (updateTraining
             (s\<lparr>db := Some d,
                data := (data s)\<lparr>training := appdata.training (data s) @ [training]\<rparr>\<rparr>))))"

definition addPermit :: "platform \<Rightarrow> bool \<Rightarrow> int \<Rightarrow> app \<Rightarrow> outcome \<times> app" where
  "addPermit P ok now s =
     (let permit = permitOf P now in
      case addItem permitsStore permitsStore_update id_p ok permit (db s) of
        Inl e \<Rightarrow> (Rejected e, s)
      | Inr d \<Rightarrow>
          (Fulfilled,
           updateCompliance P now
             (s\<lparr>db := Some d, data := (data s)\<lparr>permits := permits (data s) @ [permit]\<rparr>\<rparr>)))"

text \<open>
  A step is one create operation with the clock reading it sees and the answer of the
  store to its request; a run is a sequence of steps, each one finished before the
  next starts.
\<close>

datatype command = SaveFirearm firearmForm | AddMaintenance | AddTraining | AddPermit

fun exec :: "platform \<Rightarrow> command \<times> int \<times> bool \<Rightarrow> app \<Rightarrow> outcome \<times> app" where
  "exec P (SaveFirearm form, now, ok) s = saveFirearm P ok now form s"
| "exec P (AddMaintenance, now, ok) s = addMaintenance P ok now s"
| "exec P (AddTraining, now, ok) s = addTraining P ok now s"
| "exec P (AddPermit, now, ok) s = addPermit P ok now s"

definition run :: "platform \<Rightarrow> (command \<times> int \<times> bool) list \<Rightarrow> app \<Rightarrow> app" where
  "run P steps s = fold (\<lambda>st s'. snd (exec P st s')) steps s"

section \<open>Export formatter\<close>

text \<open>
  \<^verbatim>\<open>exportData\<close> and \<^verbatim>\<open>exportTheftReport\<close> build a document object and hand
  its JSON text to a download named after the day; the model returns the document and
  the file name. An object literal whose values are all strings is the list of its
  properties in order.
\<close>

record backup =
  firearms_b :: "firearm list"
  maintenance_b :: "maintenance list"
  training_b :: "training list"
  permits_b :: "permit list"
  settings_b :: settings
  exportDate :: string

definition exportData :: "platform \<Rightarrow> int \<Rightarrow> app \<Rightarrow> backup \<times> string" where
  "exportData P now s =
     (\<lparr>firearms_b = firearms (data s),
       maintenance_b = maintenance (data s),
       training_b = training (data s),
       permits_b = permits (data s),
       settings_b = settings (data s),
       exportDate = toISOString P now\<rparr>,
      ''carryvault-export-'' @ isoDay P now @ ''.json'')"

record theftReport =
  type_r :: string
  generated :: string
  personalInfo :: "(string \<times> string) list"
  stolenItems :: "(string \<times> string) list list"

definition exportTheftReport :: "platform \<Rightarrow> int \<Rightarrow> app \<Rightarrow> theftReport \<times> string" where
  "exportTheftReport P now s =
     (\<lparr>type_r = ''Theft Report Template'',
       generated = toISOString P now,
       personalInfo =
         [(''name'', ''[YOUR NAME]''), (''address'', ''[YOUR ADDRESS]''), (''phone'', ''[YOUR PHONE]'')],
       stolenItems =
         map (\<lambda>gun.
           [(''makeModel'', makeModel gun),
            (''serial'', serial gun),
            (''caliber'', caliber gun),
            (''type'', type_f gun),
            (''purchaseDate'', purchaseDate gun),
            (''estimatedValue'', if price gun \<noteq> [] then price gun else ''[ESTIMATED VALUE]'')])
           (firearms (data s))\<rparr>,
      ''theft-report-template-'' @ isoDay P now @ ''.json'')"

section \<open>State predicates\<close>

text \<open>
  \<open>idsOk\<close>: in the snapshot and in the store the ids of each collection are pairwise
  distinct, and every id of the snapshot is a key of the store. \<open>makeModelsOk\<close>: no
  firearm of the snapshot or of the store has an empty make and model.
  \<open>dashboardShows\<close> and \<open>alertListShows\<close>: the page shows the four counts, or the
  alert list, of the snapshot at the given time. \<open>clocks\<close>: the clock readings of a
  run.
\<close>

definition idsOk :: "app \<Rightarrow> bool" where
  "idsOk s =
     (distinct (map id_f (firearms (data s)))
      \<and> distinct (map id_m (maintenance (data s)))
      \<and> distinct (map id_t (training (data s)))
      \<and> distinct (map id_p (permits (data s)))
      \<and> (case db s of
           None \<Rightarrow> True
         | Some d \<Rightarrow>
             distinct (map id_f (firearmsStore d))
             \<and> distinct (map id_m (maintenanceStore d))
             \<and> distinct (map id_t (trainingStore d))
             \<and> distinct (map id_p (permitsStore d))
             \<and> set (map id_f (firearms (data s))) \<subseteq> set (map id_f (firearmsStore d))
             \<and> set (map id_m (maintenance (data s))) \<subseteq> set (map id_m (maintenanceStore d))
             \<and> set (map id_t (training (data s))) \<subseteq> set (map id_t (trainingStore d))
             \<and> set (map id_p (permits (data s))) \<subseteq> set (map id_p (permitsStore d))))"

definition makeModelsOk :: "app \<Rightarrow> bool" where
  "makeModelsOk s =
     ((\<forall>f \<in> set (firearms (data s)). makeModel f \<noteq> [])
      \<and> (case db s of
           None \<Rightarrow> True
         | Some d \<Rightarrow> \<forall>f \<in> set (firearmsStore d). makeModel f \<noteq> []))"

definition dashboardShows :: "platform \<Rightarrow> int \<Rightarrow> app \<Rightarrow> bool" where
  "dashboardShows P now s =
     (gunCount (dom s) = Some (length (firearms (data s)))
      \<and> maintenanceCount (dom s) = Some (length (maintenance (data s)))
      \<and> trainingCount (dom s) = Some (length (training (data s)))
      \<and> alertCount (dom s) = Some (calculateAlerts P now (data s)))"

definition alertListShows :: "platform \<Rightarrow> int \<Rightarrow> app \<Rightarrow> bool" where
  "alertListShows P now s = (alertList (dom s) = Some (generateAlerts P now (data s)))"

definition clocks :: "(command \<times> int \<times> bool) list \<Rightarrow> int set" where
  "clocks steps = set (map (\<lambda>st. fst (snd st)) steps)"

section \<open>Sample inputs\<close>

text \<open>
  Concrete inputs for the instances below: a platform that parses one date, a permit
  expiring on it, a form, and the states reached from a fresh and from a stored
  database.
\<close>

definition samplePlatform :: platform where
  "samplePlatform =
     \<lparr>dateParse = (\<lambda>s. if s = ''2030-01-01'' then Some 1893456000000 else None),
      toISOString = (\<lambda>t. ''2029-12-22T12:00:00.000Z'')\<rparr>"

definition samplePermit :: permit where
  "samplePermit =
     \<lparr>id_p = 1, type_p = ''Concealed Carry'', state_p = ''TX'', issueDate = ''2025-01-01'',
      expirationDate = ''2030-01-01'', permitNumber = ''A1'', notes_p = [], createdAt_p = []\<rparr>"

definition malformedPermit :: permit where
  "malformedPermit = samplePermit\<lparr>expirationDate := ''soon''\<rparr>"

definition sampleForm :: firearmForm where
  "sampleForm =
     \<lparr>firearmMakeModel = ''Glock 19'', firearmSerial = ''ABC123'', firearmCaliber = ''9mm'',
      firearmType = ''Pistol'', firearmPurchaseDate = ''2024-05-01'', firearmPrice = ''550'',
      firearmNotes = []\<rparr>"

definition emptyForm :: firearmForm where
  "emptyForm = sampleForm\<lparr>firearmMakeModel := []\<rparr>"

definition sampleDatabase :: database where
  "sampleDatabase = emptyDatabase\<lparr>permitsStore := [samplePermit]\<rparr>"

definition freshApp :: app where
  "freshApp = snd (init samplePlatform Fresh (\<lambda>_. True) 1000)"

definition loadedApp :: app where
  "loadedApp = snd (init samplePlatform (Existing sampleDatabase) (\<lambda>_. True) 1884816000000)"

definition viewedApp :: app where
  "viewedApp = showSection samplePlatform 1884816000000 ''compliance'' loadedApp"

definition sampleFirearm :: firearm where
  "sampleFirearm = firearmOf samplePlatform 1000 sampleForm"

definition unpricedFirearm :: firearm where
  "unpricedFirearm = firearmOf samplePlatform 2000 (sampleForm\<lparr>firearmPrice := []\<rparr>)"

definition stockedApp :: app where
  "stockedApp = newApp\<lparr>data := emptyData\<lparr>firearms := [sampleFirearm, unpricedFirearm]\<rparr>\<rparr>"


section \<open>Properties of the alert engine\<close>

lemma fold_pushAlert:
  "fold (pushAlert P now) ps acc = acc @ concat (map (\<lambda>p. pushAlert P now p []) ps)"
proof (induction ps arbitrary: acc)
  case Nil
  then show ?case by simp
next
  case (Cons p ps)
  have "pushAlert P now p acc = acc @ pushAlert P now p []"
    by (simp add: pushAlert_def)
  then show ?case by (simp add: Cons.IH)
qed

lemma fold_count:
  "fold (\<lambda>p count. if isPermitExpiringSoon P now p then count + 1 else count) ps (n::nat)
     = n + length (filter (isPermitExpiringSoon P now) ps)"
  by (induction ps arbitrary: n) auto

lemma length_pushAlert:
  "length (pushAlert P now p []) = (if isPermitExpiringSoon P now p then 1 else 0)"
  by (cases "daysUntil P now p") (auto simp: pushAlert_def isPermitExpiringSoon_def)

lemma length_concat_pushAlert:
  "length (concat (map (\<lambda>p. pushAlert P now p []) ps))
     = length (filter (isPermitExpiringSoon P now) ps)"
  by (induction ps) (simp_all add: length_pushAlert)

lemma samplePermit_fields:
  "type_p samplePermit = ''Concealed Carry''"
  "state_p samplePermit = ''TX''"
  "expirationDate samplePermit = ''2030-01-01''"
  by (simp_all add: samplePermit_def)

lemma daysUntil_sample_10:
  "daysUntil samplePlatform 1892635200000 samplePermit = Num (19 / 2)"
  by (simp add: daysUntil_def samplePlatform_def samplePermit_def newDate_def msPerDay_def)

lemma daysUntil_sample_60:
  "daysUntil samplePlatform 1888315200000 samplePermit = Num (119 / 2)"
  by (simp add: daysUntil_def samplePlatform_def samplePermit_def newDate_def msPerDay_def)

lemma daysUntil_sample_expired:
  "daysUntil samplePlatform 1893931200000 samplePermit = Num (- 11 / 2)"
  by (simp add: daysUntil_def samplePlatform_def samplePermit_def newDate_def msPerDay_def)

lemma intToString_10: "intToString 10 = ''10''"
  by (simp add: intToString_def natToString.simps digitChar_def)

lemma intToString_60: "intToString 60 = ''60''"
  by (simp add: intToString_def natToString.simps digitChar_def)

lemma intToString_m5: "intToString (- 5) = ''-5''"
  by (simp add: intToString_def natToString.simps digitChar_def)

lemma generateAlerts_sample_10:
  "generateAlerts samplePlatform 1892635200000 (emptyData\<lparr>permits := [samplePermit]\<rparr>) =
     [\<lparr>title = ''Concealed Carry Expiring Soon'',
       description = ''Your TX Concealed Carry expires in 10 days'',
       priority = ''high''\<rparr>]"
  by (simp add: generateAlerts_def pushAlert_def daysUntil_sample_10 intToString_10 samplePermit_fields)

lemma generateAlerts_sample_60:
  "generateAlerts samplePlatform 1888315200000 (emptyData\<lparr>permits := [samplePermit]\<rparr>) =
     [\<lparr>title = ''Concealed Carry Renewal Reminder'',
       description = ''Your TX Concealed Carry expires in 60 days'',
       priority = ''medium''\<rparr>]"
  by (simp add: generateAlerts_def pushAlert_def daysUntil_sample_60 intToString_60 samplePermit_fields)

text \<open>
  Claim C1, as the code has it. \<^verbatim>\<open>generateAlerts\<close> gives every permit of the
  snapshot at most one alert, in the order of the permits: a permit with a non-empty
  expiration date and \<open>daysUntil \<le> 30\<close> gives one alert of priority \<open>high\<close> with
  title \<open><type> Expiring Soon\<close>; otherwise one with a non-empty expiration date and
  \<open>daysUntil \<le> 90\<close> gives one alert of priority \<open>medium\<close> with title
  \<open><type> Renewal Reminder\<close>; the description of both is
  \<open>Your <state> <type> expires in <ceil(daysUntil)> days\<close>; any other permit, one
  without expiration date included, gives no alert.
\<close>

theorem generateAlerts_per_permit:
  "generateAlerts P now d =
     concat (map (\<lambda>p.
       if expirationDate p \<noteq> [] \<and> jsLe (daysUntil P now p) (Num 30) then
         [\<lparr>title = type_p p @ '' Expiring Soon'',
           description = ''Your '' @ state_p p @ '' '' @ type_p p @ '' expires in ''
             @ numToString (mathCeil (daysUntil P now p)) @ '' days'',
           priority = ''high''\<rparr>]
       else if expirationDate p \<noteq> [] \<and> jsLe (daysUntil P now p) (Num 90) then
         [\<lparr>title = type_p p @ '' Renewal Reminder'',
           description = ''Your '' @ state_p p @ '' '' @ type_p p @ '' expires in ''
             @ numToString (mathCeil (daysUntil P now p)) @ '' days'',
           priority = ''medium''\<rparr>]
       else []) (permits d))"
proof -
  have "pushAlert P now p [] =
       (if expirationDate p \<noteq> [] \<and> jsLe (daysUntil P now p) (Num 30) then
         [\<lparr>title = type_p p @ '' Expiring Soon'',
           description = ''Your '' @ state_p p @ '' '' @ type_p p @ '' expires in ''
             @ numToString (mathCeil (daysUntil P now p)) @ '' days'',
           priority = ''high''\<rparr>]
       else if expirationDate p \<noteq> [] \<and> jsLe (daysUntil P now p) (Num 90) then
         [\<lparr>title = type_p p @ '' Renewal Reminder'',
           description = ''Your '' @ state_p p @ '' '' @ type_p p @ '' expires in ''
             @ numToString (mathCeil (daysUntil P now p)) @ '' days'',
           priority = ''medium''\<rparr>]
       else [])" for p
    by (simp add: pushAlert_def)
  then show ?thesis
    by (simp add: generateAlerts_def fold_pushAlert)
qed

theorem generateAlerts_per_permit_witness:
  "generateAlerts samplePlatform 1892635200000 (emptyData\<lparr>permits := [samplePermit]\<rparr>) =
     [\<lparr>title = ''Concealed Carry Expiring Soon'',
       description = ''Your TX Concealed Carry expires in 10 days'',
       priority = ''high''\<rparr>]"
  using generateAlerts_per_permit
    [of samplePlatform 1892635200000 "emptyData\<lparr>permits := [samplePermit]\<rparr>"]
  by (simp add: daysUntil_sample_10 intToString_10 samplePermit_fields)

text \<open>
  Claim C1, as it is stated, fails: ten days before expiry the alert's texts are
  \<open>Concealed Carry Expiring Soon\<close> and
  \<open>Your TX Concealed Carry expires in 10 days\<close>, neither of them the message
  \<open>Concealed Carry expiring in 10 days\<close>; sixty days before, neither text is
  \<open>Concealed Carry renewal reminder, expires in 60 days\<close>.
\<close>

theorem alert_message_counterexample:
  "generateAlerts samplePlatform 1892635200000 (emptyData\<lparr>permits := [samplePermit]\<rparr>) =
     [\<lparr>title = ''Concealed Carry Expiring Soon'',
       description = ''Your TX Concealed Carry expires in 10 days'',
       priority = ''high''\<rparr>]
   \<and> ''Concealed Carry Expiring Soon'' \<noteq> ''Concealed Carry expiring in 10 days''
   \<and> ''Your TX Concealed Carry expires in 10 days'' \<noteq> ''Concealed Carry expiring in 10 days''
   \<and> generateAlerts samplePlatform 1888315200000 (emptyData\<lparr>permits := [samplePermit]\<rparr>) =
     [\<lparr>title = ''Concealed Carry Renewal Reminder'',
       description = ''Your TX Concealed Carry expires in 60 days'',
       priority = ''medium''\<rparr>]
   \<and> ''Concealed Carry Renewal Reminder''
        \<noteq> ''Concealed Carry renewal reminder, expires in 60 days''
   \<and> ''Your TX Concealed Carry expires in 60 days''
        \<noteq> ''Concealed Carry renewal reminder, expires in 60 days''"
  by (simp add: generateAlerts_sample_10 generateAlerts_sample_60)


text \<open>
  Claim C2. For every snapshot and reference time the count of
  \<^verbatim>\<open>calculateAlerts\<close> is the number of alerts of \<^verbatim>\<open>generateAlerts\<close>;
  \<^verbatim>\<open>isPermitExpiringSoon\<close> holds exactly for a permit with a non-empty expiration
  date and \<open>daysUntil \<le> 90\<close>, which is exactly when \<^verbatim>\<open>generateAlerts\<close> has
  an alert for it.
\<close>

theorem calculateAlerts_eq_length_generateAlerts:
  "calculateAlerts P now d = length (generateAlerts P now d)
   \<and> isPermitExpiringSoon P now p
       = (expirationDate p \<noteq> [] \<and> jsLe (daysUntil P now p) (Num 90))
   \<and> isPermitExpiringSoon P now p = (pushAlert P now p [] \<noteq> [])"
proof -
  have "calculateAlerts P now d = length (generateAlerts P now d)"
    by (simp add: calculateAlerts_def generateAlerts_def fold_count fold_pushAlert
        length_concat_pushAlert)
  moreover have "isPermitExpiringSoon P now p
       = (expirationDate p \<noteq> [] \<and> jsLe (daysUntil P now p) (Num 90))"
    by (simp add: isPermitExpiringSoon_def)
  moreover have "isPermitExpiringSoon P now p = (pushAlert P now p [] \<noteq> [])"
    using length_pushAlert [of P now p] by (auto split: if_splits)
  ultimately show ?thesis by blast
qed

theorem calculateAlerts_eq_length_generateAlerts_witness:
  "calculateAlerts samplePlatform 1892635200000 (emptyData\<lparr>permits := [samplePermit]\<rparr>) = 1
   \<and> isPermitExpiringSoon samplePlatform 1892635200000 samplePermit"
  using calculateAlerts_eq_length_generateAlerts
    [of samplePlatform 1892635200000 "emptyData\<lparr>permits := [samplePermit]\<rparr>" samplePermit]
  by (simp add: generateAlerts_sample_10 daysUntil_sample_10 samplePermit_fields)

lemma daysUntil_expired:
  assumes "dateParse P (expirationDate p) = Some e" and "e < now"
  shows "\<exists>r. daysUntil P now p = Num r \<and> r < 0"
proof -
  have "daysUntil P now p = Num ((of_int e - of_int now) / msPerDay)"
    using assms(1) by (simp add: daysUntil_def newDate_def)
  moreover have "(of_int e - of_int now) / msPerDay < 0"
    using assms(2) by (simp add: msPerDay_def divide_neg_pos)
  ultimately show ?thesis by blast
qed

text \<open>
  Claim C3. A permit of the snapshot whose expiration date parses to a time before
  \<open>now\<close> has its alert of priority \<open>high\<close> in the list of
  \<^verbatim>\<open>generateAlerts\<close>.
\<close>

theorem expired_permit_high_alert:
  assumes "p \<in> set (permits d)"
    and "expirationDate p \<noteq> []"
    and "dateParse P (expirationDate p) = Some e"
    and "e < now"
  shows "\<lparr>title = type_p p @ '' Expiring Soon'',
          description = ''Your '' @ state_p p @ '' '' @ type_p p @ '' expires in ''
            @ numToString (mathCeil (daysUntil P now p)) @ '' days'',
          priority = ''high''\<rparr> \<in> set (generateAlerts P now d)"
proof -
  obtain r where r: "daysUntil P now p = Num r" "r < 0"
    using daysUntil_expired [OF assms(3,4)] by blast
  have "jsLe (daysUntil P now p) (Num 30)"
    using r by simp
  then have "pushAlert P now p [] =
      [\<lparr>title = type_p p @ '' Expiring Soon'',
        description = ''Your '' @ state_p p @ '' '' @ type_p p @ '' expires in ''
          @ numToString (mathCeil (daysUntil P now p)) @ '' days'',
        priority = ''high''\<rparr>]"
    using assms(2) by (simp add: pushAlert_def)
  then show ?thesis
    using assms(1) by (force simp: generateAlerts_def fold_pushAlert)
qed

theorem expired_permit_high_alert_witness:
  "samplePermit \<in> set (permits (emptyData\<lparr>permits := [samplePermit]\<rparr>))
   \<and> dateParse samplePlatform (expirationDate samplePermit) = Some 1893456000000
   \<and> (1893456000000 :: int) < 1893931200000
   \<and> \<lparr>title = ''Concealed Carry Expiring Soon'',
        description = ''Your TX Concealed Carry expires in -5 days'',
        priority = ''high''\<rparr>
       \<in> set (generateAlerts samplePlatform 1893931200000
                (emptyData\<lparr>permits := [samplePermit]\<rparr>))"
proof -
  have a: "samplePermit \<in> set (permits (emptyData\<lparr>permits := [samplePermit]\<rparr>))"
    by simp
  have b: "expirationDate samplePermit \<noteq> []"
    by (simp add: samplePermit_fields)
  have c: "dateParse samplePlatform (expirationDate samplePermit) = Some 1893456000000"
    by (simp add: samplePermit_fields samplePlatform_def)
  have d: "(1893456000000 :: int) < 1893931200000"
    by simp
  show ?thesis
    using expired_permit_high_alert [OF a b c d] a c
    by (simp add: daysUntil_sample_expired intToString_m5 samplePermit_fields)
qed

lemma daysUntil_malformed:
  "dateParse P (expirationDate p) = None \<Longrightarrow> daysUntil P now p = NaN"
  by (simp add: daysUntil_def newDate_def)

text \<open>
  Claim C10. A permit whose expiration date is a non-empty string that is no valid
  date adds no alert and is not expiring soon: with it or without it in the snapshot,
  \<^verbatim>\<open>generateAlerts\<close> returns the same list and \<^verbatim>\<open>calculateAlerts\<close> the
  same count.
\<close>

theorem malformed_date_no_alert:
  assumes "expirationDate p \<noteq> []"
    and "dateParse P (expirationDate p) = None"
  shows "pushAlert P now p alerts = alerts
    \<and> \<not> isPermitExpiringSoon P now p
    \<and> generateAlerts P now (d\<lparr>permits := xs @ p # ys\<rparr>)
        = generateAlerts P now (d\<lparr>permits := xs @ ys\<rparr>)
    \<and> calculateAlerts P now (d\<lparr>permits := xs @ p # ys\<rparr>)
        = calculateAlerts P now (d\<lparr>permits := xs @ ys\<rparr>)"
proof -
  have nan: "daysUntil P now p = NaN"
    using assms(2) by (rule daysUntil_malformed)
  have push: "pushAlert P now p acc = acc" for acc
    by (simp add: pushAlert_def nan)
  have soon: "\<not> isPermitExpiringSoon P now p"
    by (simp add: isPermitExpiringSoon_def nan)
  have "generateAlerts P now (d\<lparr>permits := xs @ p # ys\<rparr>)
        = generateAlerts P now (d\<lparr>permits := xs @ ys\<rparr>)"
    by (simp add: generateAlerts_def push)
  moreover have "calculateAlerts P now (d\<lparr>permits := xs @ p # ys\<rparr>)
        = calculateAlerts P now (d\<lparr>permits := xs @ ys\<rparr>)"
    by (simp add: calculateAlerts_def soon)
  ultimately show ?thesis
    using push soon by simp
qed

theorem malformed_date_no_alert_witness:
  "expirationDate malformedPermit \<noteq> []
   \<and> dateParse samplePlatform (expirationDate malformedPermit) = None
   \<and> generateAlerts samplePlatform 1892635200000
        (emptyData\<lparr>permits := [malformedPermit, samplePermit]\<rparr>) =
       [\<lparr>title = ''Concealed Carry Expiring Soon'',
         description = ''Your TX Concealed Carry expires in 10 days'',
         priority = ''high''\<rparr>]
   \<and> calculateAlerts samplePlatform 1892635200000
        (emptyData\<lparr>permits := [malformedPermit, samplePermit]\<rparr>) = 1"
proof -
  have a: "expirationDate malformedPermit \<noteq> []"
    by (simp add: malformedPermit_def)
  have b: "dateParse samplePlatform (expirationDate malformedPermit) = None"
    by (simp add: malformedPermit_def samplePlatform_def)
  have c: "calculateAlerts samplePlatform 1892635200000 (emptyData\<lparr>permits := [samplePermit]\<rparr>) = 1"
    by (simp add: calculateAlerts_def isPermitExpiringSoon_def daysUntil_sample_10
        samplePermit_fields)
  show ?thesis
    using malformed_date_no_alert [OF a b, where now = 1892635200000 and alerts = "[]"
        and d = emptyData and xs = "[]" and ys = "[samplePermit]"]
      a b c
    by (simp add: generateAlerts_sample_10)
qed

section \<open>Properties of the facade and of the export formatter\<close>

lemma update_simps [simp]:
  "data (updateDashboard P now s) = data s"
  "db (updateDashboard P now s) = db s"
  "data (updateInventory s) = data s"
  "db (updateInventory s) = db s"
  "data (updateMaintenance s) = data s"
  "db (updateMaintenance s) = db s"
  "data (updateTraining s) = data s"
  "db (updateTraining s) = db s"
  "data (updateCompliance P now s) = data s"
  "db (updateCompliance P now s) = db s"
  by (simp_all add: updateDashboard_def updateInventory_def updateMaintenance_def
      updateTraining_def updateCompliance_def updateAlerts_def updatePermits_def)

lemma storeAdd_Inr:
  "storeAdd key ok item rows = Inr rows' \<Longrightarrow>
     key item \<notin> set (map key rows) \<and> rows' = insort_key key item rows"
  by (auto simp: storeAdd_def split: if_splits)

lemma addItem_Inr:
  "addItem sel upd key ok item dbo = Inr d' \<Longrightarrow>
     \<exists>d. dbo = Some d \<and> key item \<notin> set (map key (sel d))
        \<and> d' = upd (\<lambda>_. insort_key key item (sel d)) d"
  by (auto simp: addItem_def split: option.splits sum.splits dest: storeAdd_Inr)

lemma distinct_map_insort_key:
  "k x \<notin> set (map k xs) \<Longrightarrow> distinct (map k xs) \<Longrightarrow> distinct (map k (insort_key k x xs))"
  by (induction xs) (auto simp: set_insort_key)

lemma saveFirearm_step:
  assumes "idsOk s"
  shows "idsOk (snd (saveFirearm P ok now form s))
    \<and> prefix (firearms (data s)) (firearms (data (snd (saveFirearm P ok now form s))))
    \<and> maintenance (data (snd (saveFirearm P ok now form s))) = maintenance (data s)
    \<and> training (data (snd (saveFirearm P ok now form s))) = training (data s)
    \<and> permits (data (snd (saveFirearm P ok now form s))) = permits (data s)
    \<and> set (map id_f (firearms (data (snd (saveFirearm P ok now form s)))))
        \<subseteq> insert now (set (map id_f (firearms (data s))))"
proof (cases "makeModel (firearmOf P now form) = []")
  case True
  then show ?thesis using assms by (auto simp: saveFirearm_def)
next
  case False
  show ?thesis
  proof (cases "addItem firearmsStore firearmsStore_update id_f ok (firearmOf P now form) (db s)")
    case (Inl e)
    then show ?thesis using assms False by (auto simp: saveFirearm_def)
  next
    case (Inr d')
    from addItem_Inr [OF Inr] obtain d where d: "db s = Some d"
      "id_f (firearmOf P now form) \<notin> set (map id_f (firearmsStore d))"
      "d' = firearmsStore_update (\<lambda>_. insort_key id_f (firearmOf P now form) (firearmsStore d)) d"
      by blast
    have idn: "id_f (firearmOf P now form) = now" by (simp add: firearmOf_def)
    show ?thesis
      using assms False Inr d idn
      by (auto simp: saveFirearm_def idsOk_def Let_def set_insort_key
          distinct_map_insort_key [unfolded set_map] distinct_map_insort_key)
  qed
qed

lemma addMaintenance_step:
  assumes "idsOk s"
  shows "idsOk (snd (addMaintenance P ok now s))
    \<and> firearms (data (snd (addMaintenance P ok now s))) = firearms (data s)
    \<and> prefix (maintenance (data s)) (maintenance (data (snd (addMaintenance P ok now s))))
    \<and> training (data (snd (addMaintenance P ok now s))) = training (data s)
    \<and> permits (data (snd (addMaintenance P ok now s))) = permits (data s)
    \<and> set (map id_m (maintenance (data (snd (addMaintenance P ok now s)))))
        \<subseteq> insert now (set (map id_m (maintenance (data s))))"
proof (cases "addItem maintenanceStore maintenanceStore_update id_m ok (maintenanceOf P now) (db s)")
  case (Inl e)
  then show ?thesis using assms by (auto simp: addMaintenance_def)
next
  case (Inr d')
  from addItem_Inr [OF Inr] obtain d where d: "db s = Some d"
    "id_m (maintenanceOf P now) \<notin> set (map id_m (maintenanceStore d))"
    "d' = maintenanceStore_update (\<lambda>_. insort_key id_m (maintenanceOf P now) (maintenanceStore d)) d"
    by blast
  have idn: "id_m (maintenanceOf P now) = now" by (simp add: maintenanceOf_def)
  show ?thesis
    using assms Inr d idn
    by (auto simp: addMaintenance_def idsOk_def Let_def set_insort_key
        distinct_map_insort_key [unfolded set_map])
qed

lemma addTraining_step:
  assumes "idsOk s"
  shows "idsOk (snd (addTraining P ok now s))
    \<and> firearms (data (snd (addTraining P ok now s))) = firearms (data s)
    \<and> maintenance (data (snd (addTraining P ok now s))) = maintenance (data s)
    \<and> prefix (training (data s)) (training (data (snd (addTraining P ok now s))))
    \<and> permits (data (snd (addTraining P ok now s))) = permits (data s)
    \<and> set (map id_t (training (data (snd (addTraining P ok now s)))))
        \<subseteq> insert now (set (map id_t (training (data s))))"
proof (cases "addItem trainingStore trainingStore_update id_t ok (trainingOf P now) (db s)")
  case (Inl e)
  then show ?thesis using assms by (auto simp: addTraining_def)
next
  case (Inr d')
  from addItem_Inr [OF Inr] obtain d where d: "db s = Some d"
    "id_t (trainingOf P now) \<notin> set (map id_t (trainingStore d))"
    "d' = trainingStore_update (\<lambda>_. insort_key id_t (trainingOf P now) (trainingStore d)) d"
    by blast
  have idn: "id_t (trainingOf P now) = now" by (simp add: trainingOf_def)
  show ?thesis
    using assms Inr d idn
    by (auto simp: addTraining_def idsOk_def Let_def set_insort_key
        distinct_map_insort_key [unfolded set_map])
qed

lemma addPermit_step:
  assumes "idsOk s"
  shows "idsOk (snd (addPermit P ok now s))
    \<and> firearms (data (snd (addPermit P ok now s))) = firearms (data s)
    \<and> maintenance (data (snd (addPermit P ok now s))) = maintenance (data s)
    \<and> training (data (snd (addPermit P ok now s))) = training (data s)
    \<and> prefix (permits (data s)) (permits (data (snd (addPermit P ok now s))))
    \<and> set (map id_p (permits (data (snd (addPermit P ok now s)))))
        \<subseteq> insert now (set (map id_p (permits (data s))))"
proof (cases "addItem permitsStore permitsStore_update id_p ok (permitOf P now) (db s)")
  case (Inl e)
  then show ?thesis using assms by (auto simp: addPermit_def)
next
  case (Inr d')
  from addItem_Inr [OF Inr] obtain d where d: "db s = Some d"
    "id_p (permitOf P now) \<notin> set (map id_p (permitsStore d))"
    "d' = permitsStore_update (\<lambda>_. insort_key id_p (permitOf P now) (permitsStore d)) d"
    by blast
  have idn: "id_p (permitOf P now) = now" by (simp add: permitOf_def)
  show ?thesis
    using assms Inr d idn
    by (auto simp: addPermit_def idsOk_def Let_def set_insort_key
        distinct_map_insort_key [unfolded set_map])
qed

lemma exec_step:
  assumes "idsOk s"
  shows "idsOk (snd (exec P st s))
    \<and> prefix (firearms (data s)) (firearms (data (snd (exec P st s))))
    \<and> prefix (maintenance (data s)) (maintenance (data (snd (exec P st s))))
    \<and> prefix (training (data s)) (training (data (snd (exec P st s))))
    \<and> prefix (permits (data s)) (permits (data (snd (exec P st s))))
    \<and> set (map id_f (firearms (data (snd (exec P st s)))))
        \<subseteq> insert (fst (snd st)) (set (map id_f (firearms (data s))))
    \<and> set (map id_m (maintenance (data (snd (exec P st s)))))
        \<subseteq> insert (fst (snd st)) (set (map id_m (maintenance (data s))))
    \<and> set (map id_t (training (data (snd (exec P st s)))))
        \<subseteq> insert (fst (snd st)) (set (map id_t (training (data s))))
    \<and> set (map id_p (permits (data (snd (exec P st s)))))
        \<subseteq> insert (fst (snd st)) (set (map id_p (permits (data s))))"
proof -
  obtain c now ok where st: "st = (c, now, ok)" by (cases st) auto
  show ?thesis
  proof (cases c)
    case (SaveFirearm form)
    with saveFirearm_step [OF assms, of P ok now form] st show ?thesis by auto
  next
    case AddMaintenance
    with addMaintenance_step [OF assms, of P ok now] st show ?thesis by auto
  next
    case AddTraining
    with addTraining_step [OF assms, of P ok now] st show ?thesis by auto
  next
    case AddPermit
    with addPermit_step [OF assms, of P ok now] st show ?thesis by auto
  qed
qed

lemma run_invariant:
  assumes "idsOk s"
  shows "idsOk (run P steps s)
    \<and> prefix (firearms (data s)) (firearms (data (run P steps s)))
    \<and> prefix (maintenance (data s)) (maintenance (data (run P steps s)))
    \<and> prefix (training (data s)) (training (data (run P steps s)))
    \<and> prefix (permits (data s)) (permits (data (run P steps s)))
    \<and> set (map id_f (firearms (data (run P steps s))))
        \<subseteq> set (map id_f (firearms (data s))) \<union> clocks steps
    \<and> set (map id_m (maintenance (data (run P steps s))))
        \<subseteq> set (map id_m (maintenance (data s))) \<union> clocks steps
    \<and> set (map id_t (training (data (run P steps s))))
        \<subseteq> set (map id_t (training (data s))) \<union> clocks steps
    \<and> set (map id_p (permits (data (run P steps s))))
        \<subseteq> set (map id_p (permits (data s))) \<union> clocks steps"
  using assms
proof (induction steps arbitrary: s)
  case Nil
  then show ?case by (simp add: run_def)
next
  case (Cons st steps)
  let ?s1 = "snd (exec P st s)"
  have run: "run P (st # steps) s = run P steps ?s1"
    by (simp add: run_def)
  note step = exec_step [OF Cons.prems, of P st]
  from step have ok1: "idsOk ?s1" by blast
  note ih = Cons.IH [OF ok1]
  have cl: "clocks (st # steps) = insert (fst (snd st)) (clocks steps)"
    by (simp add: clocks_def)
  have "prefix (firearms (data s)) (firearms (data (run P steps ?s1)))"
    using step ih by (meson prefix_order.trans)
  moreover have "prefix (maintenance (data s)) (maintenance (data (run P steps ?s1)))"
    using step ih by (meson prefix_order.trans)
  moreover have "prefix (training (data s)) (training (data (run P steps ?s1)))"
    using step ih by (meson prefix_order.trans)
  moreover have "prefix (permits (data s)) (permits (data (run P steps ?s1)))"
    using step ih by (meson prefix_order.trans)
  moreover have "set (map id_f (firearms (data (run P steps ?s1))))
        \<subseteq> set (map id_f (firearms (data s))) \<union> insert (fst (snd st)) (clocks steps)"
  proof -
    have "set (map id_f (firearms (data (run P steps ?s1))))
        \<subseteq> set (map id_f (firearms (data ?s1))) \<union> clocks steps"
      using ih by blast
    moreover have "set (map id_f (firearms (data ?s1)))
        \<subseteq> insert (fst (snd st)) (set (map id_f (firearms (data s))))"
      using step by blast
    ultimately show ?thesis by blast
  qed
  moreover have "set (map id_m (maintenance (data (run P steps ?s1))))
        \<subseteq> set (map id_m (maintenance (data s))) \<union> insert (fst (snd st)) (clocks steps)"
  proof -
    have "set (map id_m (maintenance (data (run P steps ?s1))))
        \<subseteq> set (map id_m (maintenance (data ?s1))) \<union> clocks steps"
      using ih by blast
    moreover have "set (map id_m (maintenance (data ?s1)))
        \<subseteq> insert (fst (snd st)) (set (map id_m (maintenance (data s))))"
      using step by blast
    ultimately show ?thesis by blast
  qed
  moreover have "set (map id_t (training (data (run P steps ?s1))))
        \<subseteq> set (map id_t (training (data s))) \<union> insert (fst (snd st)) (clocks steps)"
  proof -
    have "set (map id_t (training (data (run P steps ?s1))))
        \<subseteq> set (map id_t (training (data ?s1))) \<union> clocks steps"
      using ih by blast
    moreover have "set (map id_t (training (data ?s1)))
        \<subseteq> insert (fst (snd st)) (set (map id_t (training (data s))))"
      using step by blast
    ultimately show ?thesis by blast
  qed
  moreover have "set (map id_p (permits (data (run P steps ?s1))))
        \<subseteq> set (map id_p (permits (data s))) \<union> insert (fst (snd st)) (clocks steps)"
  proof -
    have "set (map id_p (permits (data (run P steps ?s1))))
        \<subseteq> set (map id_p (permits (data ?s1))) \<union> clocks steps"
      using ih by blast
    moreover have "set (map id_p (permits (data ?s1)))
        \<subseteq> insert (fst (snd st)) (set (map id_p (permits (data s))))"
      using step by blast
    ultimately show ?thesis by blast
  qed
  moreover have "idsOk (run P steps ?s1)"
    using ih by blast
  ultimately show ?case
    unfolding run cl by blast
qed

lemma calculateAlerts_Nil [simp]: "permits d = [] \<Longrightarrow> calculateAlerts P now d = 0"
  by (simp add: calculateAlerts_def)

lemma generateAlerts_Nil [simp]: "permits d = [] \<Longrightarrow> generateAlerts P now d = []"
  by (simp add: generateAlerts_def)

lemma freshApp_eq:
  "freshApp =
     \<lparr>db = Some emptyDatabase, currentTab = ''dashboard'', data = emptyData,
      dom = staticPage\<lparr>gunCount := Some 0, maintenanceCount := Some 0, trainingCount := Some 0,
        alertCount := Some 0\<rparr>\<rparr>"
  by (simp add: freshApp_def init_def initDB_def loadData_def getAll_def newApp_def
      updateDashboard_def emptyDatabase_def emptyData_def)

lemma idsOk_freshApp: "idsOk freshApp"
  by (simp add: freshApp_eq idsOk_def emptyData_def emptyDatabase_def)

lemma addMaintenance_fresh:
  "addMaintenance samplePlatform True 5000 freshApp =
     (Fulfilled,
      freshApp\<lparr>db := Some (emptyDatabase\<lparr>maintenanceStore := [maintenanceOf samplePlatform 5000]\<rparr>),
        data := emptyData\<lparr>maintenance := [maintenanceOf samplePlatform 5000]\<rparr>,
        dom := staticPage\<lparr>gunCount := Some 0, maintenanceCount := Some 1, trainingCount := Some 0,
          alertCount := Some 0, maintenanceList := Some [maintenanceOf samplePlatform 5000]\<rparr>\<rparr>)"
  by (simp add: addMaintenance_def addItem_def storeAdd_def freshApp_eq emptyDatabase_def
      updateDashboard_def updateMaintenance_def emptyData_def staticPage_def Let_def)

text \<open>
  The id of a record is the clock reading of its creation. A second
  \<^verbatim>\<open>addMaintenance\<close> at the reading 5000 of the first is refused by the store and
  is rejected: the collection keeps its one record.
\<close>

lemma same_clock_second_create_refused:
  "fst (addMaintenance samplePlatform True 5000 freshApp) = Fulfilled
   \<and> map id_m (maintenance (data (snd (addMaintenance samplePlatform True 5000 freshApp)))) = [5000]
   \<and> id_m (maintenanceOf samplePlatform 5000) = 5000
   \<and> addMaintenance samplePlatform True 5000
        (snd (addMaintenance samplePlatform True 5000 freshApp))
       = (Rejected ConstraintError, snd (addMaintenance samplePlatform True 5000 freshApp))"
  by (simp add: addMaintenance_fresh)
     (simp add: addMaintenance_def addItem_def storeAdd_def maintenanceOf_def emptyData_def
        Let_def)

text \<open>
  Claim C4. From a state whose ids are in order, as startup leaves it, after every
  sequence of create operations, whatever the clock readings and the answers of the
  store: the ids of each collection are pairwise distinct in the snapshot and in the
  store; each collection of the snapshot extends the one before, so no record and no
  id already there has changed; and every new id is the clock reading of one of the
  operations, the one that created its record.
\<close>

theorem ids_stay_distinct:
  assumes "idsOk s"
  shows "idsOk (run P steps s)
    \<and> distinct (map id_f (firearms (data (run P steps s))))
    \<and> distinct (map id_m (maintenance (data (run P steps s))))
    \<and> distinct (map id_t (training (data (run P steps s))))
    \<and> distinct (map id_p (permits (data (run P steps s))))
    \<and> prefix (firearms (data s)) (firearms (data (run P steps s)))
    \<and> prefix (maintenance (data s)) (maintenance (data (run P steps s)))
    \<and> prefix (training (data s)) (training (data (run P steps s)))
    \<and> prefix (permits (data s)) (permits (data (run P steps s)))
    \<and> set (map id_f (firearms (data (run P steps s))))
        \<subseteq> set (map id_f (firearms (data s))) \<union> clocks steps
    \<and> set (map id_m (maintenance (data (run P steps s))))
        \<subseteq> set (map id_m (maintenance (data s))) \<union> clocks steps
    \<and> set (map id_t (training (data (run P steps s))))
        \<subseteq> set (map id_t (training (data s))) \<union> clocks steps
    \<and> set (map id_p (permits (data (run P steps s))))
        \<subseteq> set (map id_p (permits (data s))) \<union> clocks steps"
proof -
  note inv = run_invariant [OF assms, of P steps]
  from inv have "idsOk (run P steps s)"
    by blast
  then have "distinct (map id_f (firearms (data (run P steps s))))
    \<and> distinct (map id_m (maintenance (data (run P steps s))))
    \<and> distinct (map id_t (training (data (run P steps s))))
    \<and> distinct (map id_p (permits (data (run P steps s))))"
    by (simp add: idsOk_def)
  with inv show ?thesis
    by blast
qed

lemma run_three_maintenance:
  "run samplePlatform
      [(AddMaintenance, 5000, True), (AddMaintenance, 5000, True), (AddMaintenance, 5001, True)]
      freshApp
     = snd (addMaintenance samplePlatform True 5001
         (snd (addMaintenance samplePlatform True 5000 freshApp)))"
  by (simp add: run_def addMaintenance_fresh)
     (simp add: addMaintenance_def addItem_def storeAdd_def maintenanceOf_def emptyData_def
        Let_def)

lemma addMaintenance_second:
  "map id_m (maintenance (data (snd (addMaintenance samplePlatform True 5001
      (snd (addMaintenance samplePlatform True 5000 freshApp)))))) = [5000, 5001]"
  by (simp add: addMaintenance_fresh)
     (simp add: addMaintenance_def addItem_def storeAdd_def maintenanceOf_def emptyData_def
        Let_def)

theorem ids_stay_distinct_witness:
  "idsOk freshApp
   \<and> idsOk (run samplePlatform
        [(AddMaintenance, 5000, True), (AddMaintenance, 5000, True), (AddMaintenance, 5001, True)]
        freshApp)
   \<and> distinct (map id_m (maintenance (data (run samplePlatform
        [(AddMaintenance, 5000, True), (AddMaintenance, 5000, True), (AddMaintenance, 5001, True)]
        freshApp))))
   \<and> map id_m (maintenance (data (run samplePlatform
        [(AddMaintenance, 5000, True), (AddMaintenance, 5000, True), (AddMaintenance, 5001, True)]
        freshApp))) = [5000, 5001]"
  using ids_stay_distinct [OF idsOk_freshApp, of samplePlatform
      "[(AddMaintenance, 5000, True), (AddMaintenance, 5000, True), (AddMaintenance, 5001, True)]"]
    idsOk_freshApp
  by (simp add: run_three_maintenance addMaintenance_second)

lemma saveFirearm_makeModelsOk:
  "makeModelsOk s \<Longrightarrow> makeModelsOk (snd (saveFirearm P ok now form s))"
  by (auto simp: saveFirearm_def makeModelsOk_def Let_def set_insort_key
      split: sum.splits option.splits dest!: addItem_Inr)

lemma addMaintenance_makeModelsOk:
  "makeModelsOk s \<Longrightarrow> makeModelsOk (snd (addMaintenance P ok now s))"
  by (auto simp: addMaintenance_def makeModelsOk_def Let_def
      split: sum.splits option.splits dest!: addItem_Inr)

lemma addTraining_makeModelsOk:
  "makeModelsOk s \<Longrightarrow> makeModelsOk (snd (addTraining P ok now s))"
  by (auto simp: addTraining_def makeModelsOk_def Let_def
      split: sum.splits option.splits dest!: addItem_Inr)

lemma addPermit_makeModelsOk:
  "makeModelsOk s \<Longrightarrow> makeModelsOk (snd (addPermit P ok now s))"
  by (auto simp: addPermit_def makeModelsOk_def Let_def
      split: sum.splits option.splits dest!: addItem_Inr)

lemma exec_makeModelsOk:
  "makeModelsOk s \<Longrightarrow> makeModelsOk (snd (exec P st s))"
proof -
  assume ok: "makeModelsOk s"
  obtain c now b where st: "st = (c, now, b)" by (cases st) auto
  show ?thesis
    using ok st
    by (cases c)
      (simp_all add: saveFirearm_makeModelsOk addMaintenance_makeModelsOk
        addTraining_makeModelsOk addPermit_makeModelsOk)
qed

lemma run_makeModelsOk:
  "makeModelsOk s \<Longrightarrow> makeModelsOk (run P steps s)"
  by (induction steps arbitrary: s) (simp_all add: run_def exec_makeModelsOk)

text \<open>
  Claim C5. \<^verbatim>\<open>saveFirearm\<close> on a form with an empty make and model ends with the
  alert \<open>Make/Model is required\<close> whatever the store would answer, with or without
  a database, and leaves the store, the snapshot and the page as they were; and when
  no stored firearm has an empty make and model, the rejected record is in no snapshot
  and in no store after any further sequence of operations.
\<close>

theorem empty_makeModel_rejected:
  assumes "firearmMakeModel form = []"
  shows "saveFirearm P ok now form s = (Alerted ''Make/Model is required'', s)
    \<and> (makeModelsOk s \<longrightarrow>
         firearmOf P now form \<notin> set (firearms (data (run P steps s)))
         \<and> (case db (run P steps s) of
              None \<Rightarrow> True
            | Some d \<Rightarrow> firearmOf P now form \<notin> set (firearmsStore d)))"
proof -
  have empty: "makeModel (firearmOf P now form) = []"
    using assms by (simp add: firearmOf_def)
  then have "saveFirearm P ok now form s = (Alerted ''Make/Model is required'', s)"
    by (simp add: saveFirearm_def)
  moreover have "firearmOf P now form \<notin> set (firearms (data (run P steps s)))
         \<and> (case db (run P steps s) of
              None \<Rightarrow> True
            | Some d \<Rightarrow> firearmOf P now form \<notin> set (firearmsStore d))"
    if "makeModelsOk s"
    using run_makeModelsOk [OF that, of P steps] empty
    by (auto simp: makeModelsOk_def split: option.splits)
  ultimately show ?thesis by blast
qed

theorem empty_makeModel_rejected_witness:
  "firearmMakeModel emptyForm = []
   \<and> makeModelsOk freshApp
   \<and> saveFirearm samplePlatform True 1500 emptyForm freshApp
       = (Alerted ''Make/Model is required'', freshApp)
   \<and> firearmOf samplePlatform 1500 emptyForm
       \<notin> set (firearms (data (run samplePlatform
             [(SaveFirearm emptyForm, 1500, True), (SaveFirearm sampleForm, 2000, True)]
             freshApp)))"
proof -
  have a: "firearmMakeModel emptyForm = []"
    by (simp add: emptyForm_def)
  have b: "makeModelsOk freshApp"
    by (simp add: makeModelsOk_def freshApp_eq emptyData_def emptyDatabase_def)
  from empty_makeModel_rejected [OF a, of samplePlatform True 1500 freshApp
      "[(SaveFirearm emptyForm, 1500, True), (SaveFirearm sampleForm, 2000, True)]"] a b
  show ?thesis by blast
qed

lemma dashboardShows_updateDashboard [simp]:
  "dashboardShows P now (updateDashboard P now s)"
  by (simp add: dashboardShows_def updateDashboard_def)

lemma alertListShows_updateCompliance [simp]:
  "alertListShows P now (updateCompliance P now s)"
  by (simp add: alertListShows_def updateCompliance_def updateAlerts_def updatePermits_def)

lemma alertList_kept:
  "alertList (dom (updateDashboard P now s)) = alertList (dom s)"
  "alertList (dom (updateInventory s)) = alertList (dom s)"
  "alertList (dom (updateMaintenance s)) = alertList (dom s)"
  "alertList (dom (updateTraining s)) = alertList (dom s)"
  by (simp_all add: updateDashboard_def updateInventory_def updateMaintenance_def
      updateTraining_def)

text \<open>
  Claim C6, as the code has it. When a create operation is fulfilled, the snapshot is
  the one before with the new record at its end; after \<^verbatim>\<open>saveFirearm\<close>,
  \<^verbatim>\<open>addMaintenance\<close> and \<^verbatim>\<open>addTraining\<close> the page shows the four dashboard
  counts of the new snapshot and the alert list it showed before, and after
  \<^verbatim>\<open>addPermit\<close> it shows the alert list of the new snapshot.
\<close>

theorem mutation_refreshes_own_views:
  assumes "exec P (c, now, ok) s = (Fulfilled, s')"
  shows "(case c of
      SaveFirearm form \<Rightarrow>
        firearms (data s') = firearms (data s) @ [firearmOf P now form]
        \<and> dashboardShows P now s'
        \<and> alertList (dom s') = alertList (dom s)
    | AddMaintenance \<Rightarrow>
        maintenance (data s') = maintenance (data s) @ [maintenanceOf P now]
        \<and> dashboardShows P now s'
        \<and> alertList (dom s') = alertList (dom s)
    | AddTraining \<Rightarrow>
        training (data s') = training (data s) @ [trainingOf P now]
        \<and> dashboardShows P now s'
        \<and> alertList (dom s') = alertList (dom s)
    | AddPermit \<Rightarrow>
        permits (data s') = permits (data s) @ [permitOf P now]
        \<and> alertListShows P now s')"
proof (cases c)
  case (SaveFirearm form)
  then show ?thesis
    using assms
    by (auto simp: saveFirearm_def Let_def alertList_kept split: if_splits sum.splits)
next
  case AddMaintenance
  then show ?thesis
    using assms by (auto simp: addMaintenance_def Let_def alertList_kept split: sum.splits)
next
  case AddTraining
  then show ?thesis
    using assms by (auto simp: addTraining_def Let_def alertList_kept split: sum.splits)
next
  case AddPermit
  then show ?thesis
    using assms by (auto simp: addPermit_def Let_def split: sum.splits)
qed

lemma loadedApp_eq:
  "loadedApp =
     \<lparr>db = Some sampleDatabase, currentTab = ''dashboard'',
      data = emptyData\<lparr>permits := [samplePermit]\<rparr>,
      dom = staticPage\<lparr>gunCount := Some 0, maintenanceCount := Some 0, trainingCount := Some 0,
        alertCount := Some 0\<rparr>\<rparr>"
proof -
  have d: "daysUntil samplePlatform 1884816000000 samplePermit = Num 100"
    by (simp add: daysUntil_def samplePlatform_def samplePermit_def newDate_def msPerDay_def)
  show ?thesis
    by (simp add: loadedApp_def init_def initDB_def loadData_def getAll_def newApp_def
        updateDashboard_def sampleDatabase_def emptyDatabase_def emptyData_def Let_def
        calculateAlerts_def isPermitExpiringSoon_def d samplePermit_fields)
qed

lemma addPermit_fresh:
  "addPermit samplePlatform True 6000 freshApp =
     (Fulfilled,
      freshApp\<lparr>db := Some (emptyDatabase\<lparr>permitsStore := [permitOf samplePlatform 6000]\<rparr>),
        data := emptyData\<lparr>permits := [permitOf samplePlatform 6000]\<rparr>,
        dom := staticPage\<lparr>gunCount := Some 0, maintenanceCount := Some 0, trainingCount := Some 0,
          alertCount := Some 0,
          permitList := Some [(permitOf samplePlatform 6000, False)],
          alertList := Some []\<rparr>\<rparr>)"
proof -
  have e: "expirationDate (permitOf samplePlatform 6000) = []"
    by (simp add: permitOf_def)
  show ?thesis
    by (simp add: addPermit_def addItem_def storeAdd_def freshApp_eq emptyDatabase_def
      updateCompliance_def updateAlerts_def updatePermits_def emptyData_def staticPage_def Let_def
      generateAlerts_def pushAlert_def isPermitExpiringSoon_def e)
qed

theorem mutation_refreshes_own_views_witness:
  "exec samplePlatform (AddMaintenance, 5000, True) freshApp
     = (Fulfilled, snd (addMaintenance samplePlatform True 5000 freshApp))
   \<and> maintenance (data (snd (addMaintenance samplePlatform True 5000 freshApp)))
       = [maintenanceOf samplePlatform 5000]
   \<and> dashboardShows samplePlatform 5000 (snd (addMaintenance samplePlatform True 5000 freshApp))
   \<and> exec samplePlatform (AddPermit, 6000, True) freshApp
     = (Fulfilled, snd (addPermit samplePlatform True 6000 freshApp))
   \<and> permits (data (snd (addPermit samplePlatform True 6000 freshApp)))
       = [permitOf samplePlatform 6000]
   \<and> alertListShows samplePlatform 6000 (snd (addPermit samplePlatform True 6000 freshApp))"
proof -
  have a: "exec samplePlatform (AddMaintenance, 5000, True) freshApp
     = (Fulfilled, snd (addMaintenance samplePlatform True 5000 freshApp))"
    by (simp add: addMaintenance_fresh)
  have b: "exec samplePlatform (AddPermit, 6000, True) freshApp
     = (Fulfilled, snd (addPermit samplePlatform True 6000 freshApp))"
    by (simp add: addPermit_fresh)
  have c: "maintenance (data freshApp) = []" "permits (data freshApp) = []"
    by (simp_all add: freshApp_eq emptyData_def)
  show ?thesis
    using mutation_refreshes_own_views [OF a] mutation_refreshes_own_views [OF b] a b c
    by simp
qed

lemma daysUntil_sample_100:
  "daysUntil samplePlatform 1884816000000 samplePermit = Num 100"
  by (simp add: daysUntil_def samplePlatform_def samplePermit_def newDate_def msPerDay_def)

lemma viewedApp_eq:
  "viewedApp =
     \<lparr>db = Some sampleDatabase, currentTab = ''compliance'',
      data = emptyData\<lparr>permits := [samplePermit]\<rparr>,
      dom = staticPage\<lparr>gunCount := Some 0, maintenanceCount := Some 0, trainingCount := Some 0,
        alertCount := Some 0, permitList := Some [(samplePermit, False)],
        alertList := Some []\<rparr>\<rparr>"
  by (simp add: viewedApp_def showSection_def updateSection_def updateCompliance_def
      updateAlerts_def updatePermits_def loadedApp_eq generateAlerts_def pushAlert_def
      isPermitExpiringSoon_def daysUntil_sample_100 samplePermit_fields)

lemma saveFirearm_viewed:
  "saveFirearm samplePlatform True 1892635200000 sampleForm viewedApp =
     (Fulfilled,
      \<lparr>db = Some (sampleDatabase
         \<lparr>firearmsStore := [firearmOf samplePlatform 1892635200000 sampleForm]\<rparr>),
       currentTab = ''compliance'',
       data = emptyData\<lparr>permits := [samplePermit],
         firearms := [firearmOf samplePlatform 1892635200000 sampleForm]\<rparr>,
       dom = staticPage\<lparr>gunCount := Some 1, maintenanceCount := Some 0, trainingCount := Some 0,
         alertCount := Some 1,
         firearmList := Some [firearmOf samplePlatform 1892635200000 sampleForm],
         permitList := Some [(samplePermit, False)],
         alertList := Some []\<rparr>\<rparr>)"
proof -
  have m: "makeModel (firearmOf samplePlatform 1892635200000 sampleForm) \<noteq> []"
    by (simp add: firearmOf_def sampleForm_def)
  show ?thesis
    by (simp add: saveFirearm_def Let_def viewedApp_eq addItem_def storeAdd_def m
        sampleDatabase_def emptyDatabase_def emptyData_def staticPage_def
        updateDashboard_def updateInventory_def calculateAlerts_def isPermitExpiringSoon_def
        daysUntil_sample_10 samplePermit_fields)
qed

lemma addPermit_loaded:
  "addPermit samplePlatform True 1892635200000 loadedApp =
     (Fulfilled,
      \<lparr>db = Some (sampleDatabase
         \<lparr>permitsStore := [samplePermit, permitOf samplePlatform 1892635200000]\<rparr>),
       currentTab = ''dashboard'',
       data = emptyData\<lparr>permits := [samplePermit, permitOf samplePlatform 1892635200000]\<rparr>,
       dom = staticPage\<lparr>gunCount := Some 0, maintenanceCount := Some 0, trainingCount := Some 0,
         alertCount := Some 0,
         permitList := Some [(samplePermit, True), (permitOf samplePlatform 1892635200000, False)],
         alertList := Some
           [\<lparr>title = ''Concealed Carry Expiring Soon'',
             description = ''Your TX Concealed Carry expires in 10 days'',
             priority = ''high''\<rparr>]\<rparr>\<rparr>)"
proof -
  have e: "expirationDate (permitOf samplePlatform 1892635200000) = []"
    by (simp add: permitOf_def)
  have i: "id_p samplePermit = 1" "id_p (permitOf samplePlatform 1892635200000) = 1892635200000"
    by (simp_all add: samplePermit_def permitOf_def)
  show ?thesis
    by (simp add: addPermit_def Let_def loadedApp_eq addItem_def storeAdd_def i e
        sampleDatabase_def emptyDatabase_def emptyData_def staticPage_def
        updateCompliance_def updateAlerts_def updatePermits_def generateAlerts_def pushAlert_def
        isPermitExpiringSoon_def daysUntil_sample_10 intToString_10 samplePermit_fields)
qed

text \<open>
  Claim C6, as it is stated, fails. A permit is stored that expires in a hundred days
  when the compliance section is shown, so the alert list is empty; a firearm saved
  ninety days later leaves the alert list empty on the page, where the snapshot then
  has one alert. And \<^verbatim>\<open>addPermit\<close> at that later time leaves the alert count of
  the dashboard at 0, where the snapshot counts 1.
\<close>

theorem stale_views_counterexample:
  "fst (saveFirearm samplePlatform True 1892635200000 sampleForm viewedApp) = Fulfilled
   \<and> alertList (dom (snd (saveFirearm samplePlatform True 1892635200000 sampleForm viewedApp)))
       = Some []
   \<and> generateAlerts samplePlatform 1892635200000
        (data (snd (saveFirearm samplePlatform True 1892635200000 sampleForm viewedApp)))
       = [\<lparr>title = ''Concealed Carry Expiring Soon'',
           description = ''Your TX Concealed Carry expires in 10 days'',
           priority = ''high''\<rparr>]
   \<and> fst (addPermit samplePlatform True 1892635200000 loadedApp) = Fulfilled
   \<and> alertCount (dom (snd (addPermit samplePlatform True 1892635200000 loadedApp))) = Some 0
   \<and> calculateAlerts samplePlatform 1892635200000
        (data (snd (addPermit samplePlatform True 1892635200000 loadedApp))) = 1"
proof -
  have e: "expirationDate (permitOf samplePlatform 1892635200000) = []"
    by (simp add: permitOf_def)
  show ?thesis
    by (simp add: saveFirearm_viewed addPermit_loaded generateAlerts_def pushAlert_def
        calculateAlerts_def isPermitExpiringSoon_def daysUntil_sample_10 intToString_10
        samplePermit_fields e)
qed

lemma loadData_collections:
  "firearms (data (loadData readOk (newApp\<lparr>db := Some d\<rparr>)))
     = (if readOk ''firearms'' then firearmsStore d else [])"
  "maintenance (data (loadData readOk (newApp\<lparr>db := Some d\<rparr>)))
     = (if readOk ''firearms'' \<and> readOk ''maintenance'' then maintenanceStore d else [])"
  "training (data (loadData readOk (newApp\<lparr>db := Some d\<rparr>)))
     = (if readOk ''firearms'' \<and> readOk ''maintenance'' \<and> readOk ''training''
        then trainingStore d else [])"
  "permits (data (loadData readOk (newApp\<lparr>db := Some d\<rparr>)))
     = (if readOk ''firearms'' \<and> readOk ''maintenance'' \<and> readOk ''training''
          \<and> readOk ''permits''
        then permitsStore d else [])"
  "settings (data (loadData readOk (newApp\<lparr>db := Some d\<rparr>)))
     = (if readOk ''firearms'' \<and> readOk ''maintenance'' \<and> readOk ''training''
          \<and> readOk ''permits'' \<and> readOk ''settings''
        then (case settingsStore d of [] \<Rightarrow> defaultSettings | r # _ \<Rightarrow> value_s r)
        else defaultSettings)"
  by (simp_all add: loadData_def initDB_def getAll_def newApp_def emptyData_def Let_def
      split: list.splits)

lemma init_Existing:
  "init P (Existing d) readOk now =
     (Fulfilled, updateDashboard P now (loadData readOk (newApp\<lparr>db := Some d\<rparr>)))"
  by (simp add: init_def initDB_def)

text \<open>
  Startup establishes \<open>idsOk\<close> whenever the keys of each stored object store are
  distinct, as IndexedDB keeps them.
\<close>

lemma idsOk_init:
  assumes "case st of
      Existing d \<Rightarrow>
        distinct (map id_f (firearmsStore d)) \<and> distinct (map id_m (maintenanceStore d))
        \<and> distinct (map id_t (trainingStore d)) \<and> distinct (map id_p (permitsStore d))
    | _ \<Rightarrow> True"
  shows "idsOk (snd (init P st readOk now))"
proof (cases st)
  case (Throws e)
  then show ?thesis
    by (simp add: idsOk_def init_def initDB_def newApp_def emptyData_def)
next
  case Unavailable
  then show ?thesis
    by (simp add: idsOk_def init_def initDB_def loadData_def newApp_def emptyData_def)
next
  case Fresh
  then show ?thesis
    by (simp add: idsOk_def init_def initDB_def loadData_def getAll_def newApp_def
        emptyData_def emptyDatabase_def Let_def)
next
  case (Existing d)
  have "db (snd (init P (Existing d) readOk now)) = Some d"
    by (simp add: init_Existing loadData_def getAll_def newApp_def Let_def
        split: list.splits)
  then show ?thesis
    using assms Existing
    by (simp add: idsOk_def init_Existing loadData_collections)
qed

text \<open>
  When \<^verbatim>\<open>indexedDB.open\<close> throws, \<^verbatim>\<open>init\<close> is rejected with what was
  thrown and the object is the constructor's.
\<close>

lemma init_open_throws:
  "init P (Throws e) readOk now = (Rejected e, newApp)"
  by (simp add: init_def initDB_def)

text \<open>
  Claim C9, as the code has it. When the request that opens the storage reports an
  error, \<^verbatim>\<open>init\<close> is fulfilled without a database, with four empty collections
  and the default settings, and the dashboard shows them. When the database opens and
  a read fails, \<^verbatim>\<open>init\<close> is fulfilled as well: the collections read before the
  failing one are loaded, the others stay empty, and the settings are the stored ones
  only when all five reads succeed.
\<close>

theorem startup_failures_degrade:
  "fst (init P Unavailable readOk now) = Fulfilled
   \<and> db (snd (init P Unavailable readOk now)) = None
   \<and> data (snd (init P Unavailable readOk now)) =
       \<lparr>firearms = [], maintenance = [], training = [], permits = [],
        settings = \<lparr>userState = [], notifications =
          \<lparr>permitAlerts = True, maintenanceAlerts = True, trainingAlerts = True\<rparr>\<rparr>\<rparr>
   \<and> dashboardShows P now (snd (init P Unavailable readOk now))
   \<and> fst (init P (Existing d) readOk now) = Fulfilled
   \<and> db (snd (init P (Existing d) readOk now)) = Some d
   \<and> firearms (data (snd (init P (Existing d) readOk now)))
       = (if readOk ''firearms'' then firearmsStore d else [])
   \<and> maintenance (data (snd (init P (Existing d) readOk now)))
       = (if readOk ''firearms'' \<and> readOk ''maintenance'' then maintenanceStore d else [])
   \<and> training (data (snd (init P (Existing d) readOk now)))
       = (if readOk ''firearms'' \<and> readOk ''maintenance'' \<and> readOk ''training''
          then trainingStore d else [])
   \<and> permits (data (snd (init P (Existing d) readOk now)))
       = (if readOk ''firearms'' \<and> readOk ''maintenance'' \<and> readOk ''training''
            \<and> readOk ''permits''
          then permitsStore d else [])
   \<and> settings (data (snd (init P (Existing d) readOk now)))
       = (if readOk ''firearms'' \<and> readOk ''maintenance'' \<and> readOk ''training''
            \<and> readOk ''permits'' \<and> readOk ''settings''
          then (case settingsStore d of [] \<Rightarrow> defaultSettings | r # _ \<Rightarrow> value_s r)
          else defaultSettings)"
proof -
  have "fst (init P Unavailable readOk now) = Fulfilled"
    by (simp add: init_def initDB_def)
  moreover have "db (snd (init P Unavailable readOk now)) = None"
    by (simp add: init_def initDB_def loadData_def newApp_def)
  moreover have "data (snd (init P Unavailable readOk now)) =
       \<lparr>firearms = [], maintenance = [], training = [], permits = [],
        settings = \<lparr>userState = [], notifications =
          \<lparr>permitAlerts = True, maintenanceAlerts = True, trainingAlerts = True\<rparr>\<rparr>\<rparr>"
    by (simp add: init_def initDB_def loadData_def newApp_def emptyData_def defaultSettings_def)
  moreover have "dashboardShows P now (snd (init P Unavailable readOk now))"
    by (simp add: init_def initDB_def)
  moreover have "fst (init P (Existing d) readOk now) = Fulfilled"
    by (simp add: init_def initDB_def)
  moreover have "db (snd (init P (Existing d) readOk now)) = Some d"
    by (simp add: init_def initDB_def loadData_def getAll_def newApp_def Let_def
        split: list.splits)
  moreover have "data (snd (init P (Existing d) readOk now))
      = data (loadData readOk (newApp\<lparr>db := Some d\<rparr>))"
    by (simp add: init_def initDB_def)
  ultimately show ?thesis
    by (simp add: loadData_collections)
qed

theorem startup_failures_degrade_witness:
  "init samplePlatform Unavailable (\<lambda>_. True) 1000 =
     (Fulfilled,
      newApp\<lparr>dom := staticPage\<lparr>gunCount := Some 0, maintenanceCount := Some 0,
        trainingCount := Some 0, alertCount := Some 0\<rparr>\<rparr>)
   \<and> db (snd (init samplePlatform Unavailable (\<lambda>_. True) 1000)) = None
   \<and> data (snd (init samplePlatform Unavailable (\<lambda>_. True) 1000)) = emptyData
   \<and> permits (data (snd (init samplePlatform (Existing sampleDatabase)
        (\<lambda>n. n \<noteq> ''settings'') 1000))) = [samplePermit]
   \<and> settings (data (snd (init samplePlatform (Existing sampleDatabase)
        (\<lambda>n. n \<noteq> ''settings'') 1000))) = defaultSettings"
proof -
  have "init samplePlatform Unavailable (\<lambda>_. True) 1000 =
     (Fulfilled,
      newApp\<lparr>dom := staticPage\<lparr>gunCount := Some 0, maintenanceCount := Some 0,
        trainingCount := Some 0, alertCount := Some 0\<rparr>\<rparr>)"
    by (simp add: init_def initDB_def loadData_def updateDashboard_def newApp_def
        emptyData_def)
  then show ?thesis
    using startup_failures_degrade [of samplePlatform "\<lambda>_. True" 1000 sampleDatabase]
      startup_failures_degrade [of samplePlatform "\<lambda>n. n \<noteq> ''settings''" 1000
        sampleDatabase]
    by (simp add: emptyData_def defaultSettings_def sampleDatabase_def)
qed

text \<open>
  Claim C9, as it is stated, fails. With a database that opens and holds a firearm, a
  failing read is an error too, and \<^verbatim>\<open>init\<close> is fulfilled with the empty
  dataset: the error of the open request is not the only one swallowed. And storage
  whose \<^verbatim>\<open>open\<close> throws a SecurityError cannot be initialised either, and there
  \<^verbatim>\<open>init\<close> is rejected and the dashboard is never written.
\<close>

theorem read_error_swallowed_counterexample:
  "getAll firearmsStore False (Some (emptyDatabase\<lparr>firearmsStore := [sampleFirearm]\<rparr>))
     = Inl RequestError
   \<and> fst (init samplePlatform (Existing (emptyDatabase\<lparr>firearmsStore := [sampleFirearm]\<rparr>))
        (\<lambda>_. False) 3000)
     = Fulfilled
   \<and> db (snd (init samplePlatform
        (Existing (emptyDatabase\<lparr>firearmsStore := [sampleFirearm]\<rparr>)) (\<lambda>_. False) 3000))
     = Some (emptyDatabase\<lparr>firearmsStore := [sampleFirearm]\<rparr>)
   \<and> data (snd (init samplePlatform
        (Existing (emptyDatabase\<lparr>firearmsStore := [sampleFirearm]\<rparr>)) (\<lambda>_. False) 3000))
     = emptyData
   \<and> init samplePlatform (Throws SecurityError) (\<lambda>_. True) 3000
     = (Rejected SecurityError, newApp)
   \<and> gunCount (dom newApp) = None"
  by (simp add: getAll_def init_def initDB_def loadData_def newApp_def staticPage_def)

text \<open>
  Claim C7. The document of \<^verbatim>\<open>exportData\<close> holds the four collections and the
  settings of the snapshot as they are and the time of the export; the snapshot built
  from the document's five fields is the original one.
\<close>

theorem exportData_round_trip:
  "\<lparr>firearms = firearms_b (fst (exportData P now s)),
    maintenance = maintenance_b (fst (exportData P now s)),
    training = training_b (fst (exportData P now s)),
    permits = permits_b (fst (exportData P now s)),
    settings = settings_b (fst (exportData P now s))\<rparr> = data s
   \<and> firearms_b (fst (exportData P now s)) = firearms (data s)
   \<and> maintenance_b (fst (exportData P now s)) = maintenance (data s)
   \<and> training_b (fst (exportData P now s)) = training (data s)
   \<and> permits_b (fst (exportData P now s)) = permits (data s)
   \<and> settings_b (fst (exportData P now s)) = settings (data s)
   \<and> exportDate (fst (exportData P now s)) = toISOString P now"
  by (simp add: exportData_def)

theorem exportData_round_trip_witness:
  "\<lparr>firearms = firearms_b (fst (exportData samplePlatform 3000 stockedApp)),
    maintenance = maintenance_b (fst (exportData samplePlatform 3000 stockedApp)),
    training = training_b (fst (exportData samplePlatform 3000 stockedApp)),
    permits = permits_b (fst (exportData samplePlatform 3000 stockedApp)),
    settings = settings_b (fst (exportData samplePlatform 3000 stockedApp))\<rparr>
     = emptyData\<lparr>firearms := [sampleFirearm, unpricedFirearm]\<rparr>
   \<and> exportDate (fst (exportData samplePlatform 3000 stockedApp)) = ''2029-12-22T12:00:00.000Z''
   \<and> snd (exportData samplePlatform 3000 stockedApp) = ''carryvault-export-2029-12-22.json''"
  using exportData_round_trip [of samplePlatform 3000 stockedApp]
  by (simp add: stockedApp_def samplePlatform_def exportData_def isoDay_def)

text \<open>
  Claim C8. Every item of the theft report has the properties \<open>makeModel\<close>,
  \<open>serial\<close>, \<open>caliber\<close>, \<open>type\<close>, \<open>purchaseDate\<close> and \<open>estimatedValue\<close> of
  its firearm and no other; \<open>estimatedValue\<close> is the price, or the marker
  \<open>[ESTIMATED VALUE]\<close> when the price is empty.
\<close>

theorem theft_report_projection:
  "stolenItems (fst (exportTheftReport P now s)) =
     map (\<lambda>gun.
       [(''makeModel'', makeModel gun),
        (''serial'', serial gun),
        (''caliber'', caliber gun),
        (''type'', type_f gun),
        (''purchaseDate'', purchaseDate gun),
        (''estimatedValue'', if price gun = [] then ''[ESTIMATED VALUE]'' else price gun)])
       (firearms (data s))
   \<and> (\<forall>item \<in> set (stolenItems (fst (exportTheftReport P now s))).
         map fst item =
           [''makeModel'', ''serial'', ''caliber'', ''type'', ''purchaseDate'', ''estimatedValue'']
         \<and> ''id'' \<notin> set (map fst item)
         \<and> ''notes'' \<notin> set (map fst item)
         \<and> ''createdAt'' \<notin> set (map fst item))"
  by (auto simp: exportTheftReport_def)

theorem theft_report_projection_witness:
  "stolenItems (fst (exportTheftReport samplePlatform 3000 stockedApp)) =
     [[(''makeModel'', ''Glock 19''), (''serial'', ''ABC123''), (''caliber'', ''9mm''),
       (''type'', ''Pistol''), (''purchaseDate'', ''2024-05-01''), (''estimatedValue'', ''550'')],
      [(''makeModel'', ''Glock 19''), (''serial'', ''ABC123''), (''caliber'', ''9mm''),
       (''type'', ''Pistol''), (''purchaseDate'', ''2024-05-01''),
       (''estimatedValue'', ''[ESTIMATED VALUE]'')]]"
  using theft_report_projection [of samplePlatform 3000 stockedApp]
  by (simp add: stockedApp_def sampleFirearm_def unpricedFirearm_def firearmOf_def sampleForm_def)

end
